theory Spec2Isabelle
  imports Complex_Main "HOL-Library.AList"
begin

section \<open>Python values and library functions used by app.py\<close>

text \<open>
  The handler \<open>predict\<close> of \<open>src/app.py\<close> is embedded as a function of the request and
  of an environment that holds everything the handler obtains from outside: the
  sanitizer of werkzeug, the outcome of \<open>file.save\<close>, the loaded detection model, the
  file system as \<open>os.path.exists\<close> and \<open>os.listdir\<close> see it, and \<open>os.path.abspath\<close> and
  \<open>os.path.relpath\<close>, which depend on the working directory and may raise.

  Strings are \<open>char list\<close>s holding the UTF-8 bytes of the Python string. Python floats
  are idealised as reals. Every exception is a value: a computation that may raise
  has the type \<open>exn + 'a\<close>, with \<open>Inl\<close> the exception. All exceptions of \<open>exn\<close> are
  subclasses of Python's \<open>Exception\<close>, so \<open>except Exception\<close> catches each of them.
\<close>

datatype exn =
    AttributeError
  | UnboundLocalError
  | TypeError
  | ValueError
  | OSError
  | ModelError

subsection \<open>str methods\<close>

text \<open>
  \<open>str.lower\<close>. The handler compares lowered strings with ASCII literals only
  (\<open>"milco"\<close> and the image suffixes). No character outside ASCII lowers to a string of
  ASCII letters of these literals, so lowering the ASCII capitals and keeping every
  other byte decides these comparisons as Python does.
\<close>

definition lower_char :: "char \<Rightarrow> char" where
  "lower_char c =
     (let n = (of_char c :: nat) in if 65 \<le> n \<and> n \<le> 90 then char_of (n + 32) else c)"

definition lower :: "string \<Rightarrow> string" where
  "lower s = map lower_char s"

definition endswith :: "string \<Rightarrow> string \<Rightarrow> bool" where
  "endswith s suf = (length suf \<le> length s \<and> drop (length s - length suf) s = suf)"

text \<open>\<open>s.endswith(t)\<close> for a tuple \<open>t\<close> of suffixes.\<close>

definition endswith_any :: "string \<Rightarrow> string list \<Rightarrow> bool" where
  "endswith_any s sufs = list_ex (endswith s) sufs"

text \<open>\<open>s.replace("\\", "/")\<close>: both are single characters.\<close>

definition replace_backslash :: "string \<Rightarrow> string" where
  "replace_backslash s = map (\<lambda>c. if c = CHR 0x5C then CHR ''/'' else c) s"

text \<open>\<open>str(i)\<close> for an int, as the f-string \<open>f"Class {cls_id}"\<close> formats it.\<close>

fun digits_of_nat :: "nat \<Rightarrow> string" where
  "digits_of_nat n =
     (if n < 10 then [char_of (48 + n)]
      else digits_of_nat (n div 10) @ [char_of (48 + n mod 10)])"

declare digits_of_nat.simps [simp del]

definition py_str_int :: "int \<Rightarrow> string" where
  "py_str_int i = (if i < 0 then CHR ''-'' # digits_of_nat (nat (- i)) else digits_of_nat (nat i))"

subsection \<open>round\<close>

text \<open>\<open>round(x, 2)\<close> on the idealised real: to the nearest hundredth, ties to even.\<close>

definition round_half_even :: "real \<Rightarrow> int" where
  "round_half_even x =
     (let f = \<lfloor>x\<rfloor>; d = x - of_int f
      in if d < 1 / 2 then f else if 1 / 2 < d then f + 1 else if even f then f else f + 1)"

definition py_round2 :: "real \<Rightarrow> real" where
  "py_round2 x = of_int (round_half_even (x * 100)) / 100"

subsection \<open>os.path (POSIX)\<close>

text \<open>\<open>posixpath.join(a, b)\<close> for two arguments.\<close>

definition os_path_join :: "string \<Rightarrow> string \<Rightarrow> string" where
  "os_path_join a b =
     (if take 1 b = ''/'' \<or> a = [] then b
      else if endswith a ''/'' then a @ b
      else a @ ''/'' @ b)"

text \<open>\<open>str.rfind\<close> for a single character: the last index, or -1.\<close>

fun rfind_from :: "char \<Rightarrow> string \<Rightarrow> nat \<Rightarrow> int \<Rightarrow> int" where
  "rfind_from c [] i acc = acc"
| "rfind_from c (x # xs) i acc = rfind_from c xs (Suc i) (if x = c then int i else acc)"

definition rfind :: "string \<Rightarrow> char \<Rightarrow> int" where
  "rfind p c = rfind_from c p 0 (- 1)"

text \<open>
  \<open>posixpath.splitext\<close> (\<open>genericpath._splitext\<close> with \<open>sep = "/"\<close>, no \<open>altsep\<close>): the
  extension starts at the last dot of the last component, unless only dots precede it
  there.
\<close>

definition os_path_splitext :: "string \<Rightarrow> string \<times> string" where
  "os_path_splitext p =
     (let sepIndex = rfind p CHR ''/''; dotIndex = rfind p CHR ''.''
      in if dotIndex > sepIndex \<and>
            list_ex (\<lambda>c. c \<noteq> CHR ''.'')
              (take (nat (dotIndex - (sepIndex + 1))) (drop (nat (sepIndex + 1)) p))
         then (take (nat dotIndex) p, drop (nat dotIndex) p)
         else (p, []))"

subsection \<open>dict\<close>

text \<open>
  A dict is an association list in insertion order: \<open>d.get(k, v)\<close> reads the entry of
  \<open>k\<close>, and \<open>d[k] = v\<close> is \<open>AList.update\<close>, which replaces the entry in place or appends
  a new one.
\<close>

definition dict_get :: "('k \<times> 'v) list \<Rightarrow> 'k \<Rightarrow> 'v \<Rightarrow> 'v" where
  "dict_get d k dflt = (case map_of d k of Some v \<Rightarrow> v | None \<Rightarrow> dflt)"

section \<open>The detection model and the environment\<close>

text \<open>
  A box of the model: \<open>cls\<close> is \<open>int(box.cls[0])\<close> and \<open>conf\<close> is \<open>float(box.conf[0])\<close>.
  \<open>boxes\<close> of a result may be \<open>None\<close>.
\<close>

record box =
  cls :: int
  conf :: real

record result =
  boxes :: "box list option"

text \<open>
  \<open>model.names\<close> and \<open>model.predict(source, conf=0.25, save=True, project, name)\<close>,
  as a function of \<open>source\<close>, \<open>project\<close> and \<open>name\<close>.
\<close>

record yolo =
  names :: "int \<rightharpoonup> string"
  yolo_predict :: "string \<Rightarrow> string \<Rightarrow> string \<Rightarrow> exn + result list"

text \<open>
  What \<open>os.path.exists\<close> and \<open>os.listdir\<close> find at a path: nothing, a directory with
  its entries in the order \<open>listdir\<close> returns them, or something that exists and that
  \<open>listdir\<close> refuses.
\<close>

datatype node = Missing | Listing "string list" | Unlistable exn

record upload =
  filename :: string
  content :: string

record request =
  files :: "string \<rightharpoonup> upload"

text \<open>
  \<open>model\<close> is \<open>None\<close> when loading \<open>best.pt\<close> failed at start-up. \<open>save\<close> is the outcome
  of \<open>file.save(filepath)\<close>: \<open>None\<close> when the file was written.
\<close>

record env =
  secure_filename :: "string \<Rightarrow> string"
  save :: "string \<Rightarrow> string \<Rightarrow> exn option"
  model :: "yolo option"
  fs :: "string \<Rightarrow> node"
  abspath :: "string \<Rightarrow> exn + string"
  relpath :: "string \<Rightarrow> string \<Rightarrow> exn + string"
  static_folder :: string

definition UPLOAD_FOLDER :: string where
  "UPLOAD_FOLDER = ''static/uploads/''"

definition RESULT_FOLDER :: string where
  "RESULT_FOLDER = ''static/results/''"

section \<open>Result aggregation (lines 59 to 81)\<close>

record prediction =
  label :: string
  confidence :: real

text \<open>The local variables of \<open>predict\<close> that the result processing assigns.\<close>

record locals =
  predictions :: "prediction list"
  class_counts :: "(string \<times> int) list"
  alert_message :: string
  image_to_display_path :: string

text \<open>The warning of line 81: U+26A0 U+FE0F, then \<open>" Mine ahead!"\<close>.\<close>

definition MINE_ALERT :: string where
  "MINE_ALERT = [CHR 0xE2, CHR 0x9A, CHR 0xA0, CHR 0xEF, CHR 0xB8, CHR 0x8F] @ '' Mine ahead!''"

definition NOT_FOUND_ALERT :: string where
  "NOT_FOUND_ALERT = ''Prediction completed, but annotated image not found. Showing original.''"

definition box_label :: "(int \<rightharpoonup> string) \<Rightarrow> box \<Rightarrow> string" where
  "box_label nm b = (case nm (cls b) of Some l \<Rightarrow> l | None \<Rightarrow> ''Class '' @ py_str_int (cls b))"

definition scaled_conf :: "box \<Rightarrow> real" where
  "scaled_conf b = conf b * 100"

definition to_prediction :: "(int \<rightharpoonup> string) \<Rightarrow> box \<Rightarrow> prediction" where
  "to_prediction nm b = \<lparr>label = box_label nm b, confidence = py_round2 (scaled_conf b)\<rparr>"

definition is_mine :: "(int \<rightharpoonup> string) \<Rightarrow> box \<Rightarrow> bool" where
  "is_mine nm b = (lower (box_label nm b) = ''milco'' \<and> scaled_conf b > 60)"

text \<open>One iteration of \<open>for box in boxes\<close>.\<close>

definition aggregate_step :: "(int \<rightharpoonup> string) \<Rightarrow> locals \<Rightarrow> box \<Rightarrow> locals" where
  "aggregate_step nm st b =
     (let lbl = box_label nm b
      in st\<lparr>predictions := predictions st @ [to_prediction nm b],
            class_counts := AList.update lbl (dict_get (class_counts st) lbl 0 + 1) (class_counts st),
            alert_message := (if is_mine nm b then MINE_ALERT else alert_message st)\<rparr>)"

definition aggregate :: "(int \<rightharpoonup> string) \<Rightarrow> box list \<Rightarrow> locals \<Rightarrow> locals" where
  "aggregate nm bs st = foldl (aggregate_step nm) st bs"

section \<open>Artifact lookup (lines 87 to 105)\<close>

definition IMAGE_SUFFIXES :: "string list" where
  "IMAGE_SUFFIXES = [''.jpg'', ''.jpeg'', ''.png'', ''.bmp'', ''.gif'']"

definition is_image_name :: "string \<Rightarrow> bool" where
  "is_image_name f = endswith_any (lower f) IMAGE_SUFFIXES"

text \<open>
  The path of the first image of the result directory, \<open>None\<close> when
  \<open>found_annotated_image\<close> stays \<open>False\<close>; \<open>listdir\<close> may raise.
\<close>

definition find_annotated :: "node \<Rightarrow> string \<Rightarrow> exn + string option" where
  "find_annotated nd result_dir =
     (case nd of
        Missing \<Rightarrow> Inr None
      | Unlistable e \<Rightarrow> Inl e
      | Listing es \<Rightarrow> Inr (map_option (os_path_join result_dir) (List.find is_image_name es)))"

definition initial_locals :: "string \<Rightarrow> locals" where
  "initial_locals filepath =
     \<lparr>predictions = [], class_counts = [], alert_message = [], image_to_display_path = filepath\<rparr>"

text \<open>Lines 59 to 117: the locals after the results are processed.\<close>

definition process_results ::
  "env \<Rightarrow> (int \<rightharpoonup> string) \<Rightarrow> result list \<Rightarrow> string \<Rightarrow> string \<Rightarrow> exn + locals" where
  "process_results e nm results filepath result_dir =
     (case results of
        [] \<Rightarrow> Inr ((initial_locals filepath)\<lparr>alert_message := ''Prediction failed.''\<rparr>)
      | r # _ \<Rightarrow>
          (case boxes r of
             None \<Rightarrow> Inr ((initial_locals filepath)\<lparr>alert_message := ''No objects detected.''\<rparr>)
           | Some bs \<Rightarrow>
               if 0 < length bs then
                 (let st = aggregate nm bs (initial_locals filepath)
                  in case find_annotated (fs e result_dir) result_dir of
                       Inl x \<Rightarrow> Inl x
                     | Inr (Some p) \<Rightarrow> Inr (st\<lparr>image_to_display_path := p\<rparr>)
                     | Inr None \<Rightarrow> Inr (st\<lparr>alert_message := NOT_FOUND_ALERT\<rparr>))
               else Inr ((initial_locals filepath)\<lparr>alert_message := ''No objects detected.''\<rparr>)))"

section \<open>Path resolution (lines 124 to 154)\<close>

definition bind_exn :: "exn + 'a \<Rightarrow> ('a \<Rightarrow> exn + 'b) \<Rightarrow> exn + 'b" where
  "bind_exn m f = (case m of Inl x \<Rightarrow> Inl x | Inr v \<Rightarrow> f v)"

text \<open>\<open>try: body except Exception: handler\<close>.\<close>

definition try_except :: "exn + 'a \<Rightarrow> (exn \<Rightarrow> exn + 'a) \<Rightarrow> exn + 'a" where
  "try_except body handler = (case body of Inl x \<Rightarrow> handler x | Inr v \<Rightarrow> Inr v)"

text \<open>
  The body of the outer \<open>try\<close>. It also yields the binding of \<open>abs_static_folder_path\<close>
  that the handler finds: unbound (\<open>None\<close>) when line 126 or 129 raised.
\<close>

definition resolve_primary :: "env \<Rightarrow> string \<Rightarrow> (exn + string) \<times> string option" where
  "resolve_primary e image_path =
     (case abspath e image_path of
        Inl x \<Rightarrow> (Inl x, None)
      | Inr abs_image \<Rightarrow>
          (case abspath e (static_folder e) of
             Inl x \<Rightarrow> (Inl x, None)
           | Inr abs_static \<Rightarrow>
               (bind_exn (relpath e abs_image abs_static) (\<lambda>rel. Inr (replace_backslash rel)),
                Some abs_static)))"

text \<open>The body of the inner \<open>try\<close> (lines 147 to 149).\<close>

definition resolve_fallback :: "env \<Rightarrow> string \<Rightarrow> string option \<Rightarrow> exn + string" where
  "resolve_fallback e filepath abs_static_opt =
     bind_exn (abspath e filepath) (\<lambda>abs_original.
       bind_exn (case abs_static_opt of None \<Rightarrow> Inl UnboundLocalError | Some s \<Rightarrow> Inr s)
         (\<lambda>abs_static.
           bind_exn (relpath e abs_original abs_static) (\<lambda>rel. Inr (replace_backslash rel))))"

text \<open>
  The calculation of lines 126 to 137 as a function of the path: the path relative to
  the static folder, with forward slashes.
\<close>

definition relative_to_static :: "env \<Rightarrow> string \<Rightarrow> exn + string" where
  "relative_to_static e p =
     bind_exn (abspath e p) (\<lambda>abs_p.
       bind_exn (abspath e (static_folder e)) (\<lambda>abs_static.
         bind_exn (relpath e abs_p abs_static) (\<lambda>rel. Inr (replace_backslash rel))))"

definition DEFAULT_IMAGE :: string where
  "DEFAULT_IMAGE = ''uploads/default_image.jpg''"

definition path_resolver :: "env \<Rightarrow> string \<Rightarrow> string \<Rightarrow> exn + string" where
  "path_resolver e image_path filepath =
     (let (body, abs_static_opt) = resolve_primary e image_path
      in try_except body (\<lambda>_.
           try_except (resolve_fallback e filepath abs_static_opt) (\<lambda>_. Inr DEFAULT_IMAGE)))"

section \<open>The handler of POST /predict\<close>

record page =
  tpl_predictions :: "prediction list"
  tpl_alert :: string
  tpl_img_path :: string
  tpl_class_counts :: "(string \<times> int) list"

text \<open>A response: a body with its status, or \<open>result.html\<close> rendered with status 200.\<close>

datatype response = Plain string nat | Rendered page

text \<open>The effects of a request: files written and calls of the model, in order.\<close>

datatype event = FileSave string string | ModelPredict string string string

definition render :: "locals \<Rightarrow> string \<Rightarrow> page" where
  "render st img =
     \<lparr>tpl_predictions = predictions st, tpl_alert = alert_message st, tpl_img_path = img,
      tpl_class_counts = class_counts st\<rparr>"

text \<open>Lines 41 to 47: the paths derived from the uploaded file's name.\<close>

definition upload_filepath :: "env \<Rightarrow> upload \<Rightarrow> string" where
  "upload_filepath e file = os_path_join UPLOAD_FOLDER (secure_filename e (filename file))"

definition result_name_of :: "env \<Rightarrow> upload \<Rightarrow> string" where
  "result_name_of e file = ''result_'' @ fst (os_path_splitext (secure_filename e (filename file)))"

definition result_dir_of :: "env \<Rightarrow> upload \<Rightarrow> string" where
  "result_dir_of e file = os_path_join RESULT_FOLDER (result_name_of e file)"

text \<open>
  Lines 45 to 163, once the upload is stored: the call of the model, the processing of
  its results, the path for the page, and the page. \<open>model.predict\<close> on a model that
  is \<open>None\<close> raises \<open>AttributeError\<close> before anything is called.
\<close>

definition run_detection :: "env \<Rightarrow> upload \<Rightarrow> (exn + response) \<times> event list" where
  "run_detection e file =
     (let filepath = upload_filepath e file
      in case model e of
           None \<Rightarrow> (Inl AttributeError, [])
         | Some m \<Rightarrow>
             (case yolo_predict m filepath RESULT_FOLDER (result_name_of e file) of
                Inl x \<Rightarrow> Inl x
              | Inr results \<Rightarrow>
                  (case process_results e (names m) results filepath (result_dir_of e file) of
                     Inl x \<Rightarrow> Inl x
                   | Inr st \<Rightarrow>
                       bind_exn (path_resolver e (image_to_display_path st) filepath)
                         (\<lambda>img. Inr (Rendered (render st img)))),
              [ModelPredict filepath RESULT_FOLDER (result_name_of e file)]))"

definition predict :: "env \<Rightarrow> request \<Rightarrow> (exn + response) \<times> event list" where
  "predict e req =
     (case files req ''file'' of
        None \<Rightarrow> (Inr (Plain ''No file uploaded'' 400), [])
      | Some file \<Rightarrow>
          if filename file = [] then (Inr (Plain ''No file selected'' 400), [])
          else
            (let filepath = upload_filepath e file;
                 saved = [FileSave filepath (content file)]
             in case save e filepath (content file) of
                  Some x \<Rightarrow> (Inl x, saved)
                | None \<Rightarrow>
                    (let (res, called) = run_detection e file in (res, saved @ called))))"

section \<open>The filename sanitizer\<close>

text \<open>
  Modelled from the spec: \<open>secure_filename\<close> of the werkzeug library, which the handler
  calls at line 41 and which is not among the sources. The spec says that it "strips
  path separators and unsafe characters". The definition follows the steps of the
  library on a POSIX system: characters outside ASCII are dropped, each path separator
  becomes a blank, the words between white space are joined by underscores, every
  character that is not a letter, a digit, an underscore, a dot or a hyphen is
  removed, and dots and underscores are stripped from both ends. (The library first
  decomposes accented letters into an ASCII letter and a mark; that step is left out,
  so such a letter is dropped here.)
\<close>

definition is_ascii :: "char \<Rightarrow> bool" where
  "is_ascii c = ((of_char c :: nat) < 128)"

text \<open>\<open>str.isspace\<close> on ASCII: tab to carriage return, the four separators, blank.\<close>

definition is_space :: "char \<Rightarrow> bool" where
  "is_space c = (let n = (of_char c :: nat) in (9 \<le> n \<and> n \<le> 13) \<or> (28 \<le> n \<and> n \<le> 32))"

text \<open>\<open>s.split()\<close>: the maximal runs of characters that are not white space.\<close>

fun split_ws :: "string \<Rightarrow> string \<Rightarrow> string list" where
  "split_ws cur [] = (if cur = [] then [] else [cur])"
| "split_ws cur (c # cs) =
     (if is_space c then (if cur = [] then split_ws [] cs else cur # split_ws [] cs)
      else split_ws (cur @ [c]) cs)"

definition str_split :: "string \<Rightarrow> string list" where
  "str_split s = split_ws [] s"

fun str_join :: "string \<Rightarrow> string list \<Rightarrow> string" where
  "str_join sep [] = []"
| "str_join sep [w] = w"
| "str_join sep (w # ws) = w @ sep @ str_join sep ws"

definition SAFE_CHARS :: string where
  "SAFE_CHARS = ''ABCDEFGHIJKLMNOPQRSTUVWXYZabcdefghijklmnopqrstuvwxyz0123456789_.-''"

definition is_safe_char :: "char \<Rightarrow> bool" where
  "is_safe_char c = (c \<in> set SAFE_CHARS)"

text \<open>\<open>s.strip(chars)\<close>.\<close>

definition str_strip :: "string \<Rightarrow> string \<Rightarrow> string" where
  "str_strip chars s =
     rev (dropWhile (\<lambda>c. c \<in> set chars) (rev (dropWhile (\<lambda>c. c \<in> set chars) s)))"

definition secure_filename_posix :: "string \<Rightarrow> string" where
  "secure_filename_posix f =
     str_strip ''._''
       (filter is_safe_char
          (str_join ''_''
             (str_split (map (\<lambda>c. if c = CHR ''/'' then CHR '' '' else c) (filter is_ascii f)))))"


section \<open>Sample inputs\<close>

text \<open>
  A model with the two classes of the detector, three detections, and an environment
  in which every path lies under \<open>/app\<close>. The environment is a function of what the
  result directory holds and of what the model returns. Writing to a path that ends
  with a slash fails: it names a directory.
\<close>

definition sample_names :: "int \<rightharpoonup> string" where
  "sample_names = [0 \<mapsto> ''MILCO'', 1 \<mapsto> ''NOMBO'']"

definition sample_boxes :: "box list" where
  "sample_boxes = [\<lparr>cls = 0, conf = 0.75\<rparr>, \<lparr>cls = 1, conf = 0.5\<rparr>, \<lparr>cls = 0, conf = 0.5\<rparr>]"

definition sample_model :: "result list \<Rightarrow> yolo" where
  "sample_model rs = \<lparr>names = sample_names, yolo_predict = (\<lambda>_ _ _. Inr rs)\<rparr>"

definition sample_save :: "string \<Rightarrow> string \<Rightarrow> exn option" where
  "sample_save p data = (if endswith p ''/'' then Some OSError else None)"

definition sample_abspath :: "string \<Rightarrow> exn + string" where
  "sample_abspath p = Inr (if take 1 p = ''/'' then p else ''/app/'' @ p)"

definition sample_relpath :: "string \<Rightarrow> string \<Rightarrow> exn + string" where
  "sample_relpath p start =
     (if take (length start + 1) p = start @ ''/'' then Inr (drop (length start + 1) p)
      else Inl ValueError)"

definition sample_env :: "node \<Rightarrow> result list \<Rightarrow> env" where
  "sample_env nd rs =
     \<lparr>secure_filename = secure_filename_posix,
      save = sample_save,
      model = Some (sample_model rs),
      fs = (\<lambda>_. nd),
      abspath = sample_abspath,
      relpath = sample_relpath,
      static_folder = ''/app/static''\<rparr>"

text \<open>
  An environment on Windows: the application is installed on drive \<open>C:\<close> and the
  server runs with a working directory on drive \<open>D:\<close>. \<open>os.path.relpath\<close> raises
  \<open>ValueError\<close> for two paths on different drives.
\<close>

definition win :: "string \<Rightarrow> string" where
  "win p = map (\<lambda>c. if c = CHR ''/'' then CHR 0x5C else c) p"

definition other_drive_abspath :: "string \<Rightarrow> exn + string" where
  "other_drive_abspath p = Inr (if take 1 (drop 1 p) = '':'' then win p else win (''D:/work/'' @ p))"

definition other_drive_relpath :: "string \<Rightarrow> string \<Rightarrow> exn + string" where
  "other_drive_relpath p start =
     (if take 2 p \<noteq> take 2 start then Inl ValueError
      else if take (length start + 1) p = start @ [CHR 0x5C] then Inr (drop (length start + 1) p)
      else Inl ValueError)"

definition other_drive_env :: "node \<Rightarrow> result list \<Rightarrow> env" where
  "other_drive_env nd rs =
     (sample_env nd rs)
       \<lparr>abspath := other_drive_abspath, relpath := other_drive_relpath,
        static_folder := win ''C:/app/static''\<rparr>"

definition sample_upload :: "string \<Rightarrow> upload" where
  "sample_upload fn = \<lparr>filename = fn, content = ''data''\<rparr>"

definition sample_request :: "string \<Rightarrow> request" where
  "sample_request fn = \<lparr>files = [''file'' \<mapsto> sample_upload fn]\<rparr>"

section \<open>Properties of the aggregation loop\<close>

lemma aggregate_step_predictions:
  "predictions (aggregate_step nm st b) = predictions st @ [to_prediction nm b]"
  by (simp add: aggregate_step_def Let_def)

lemma aggregate_predictions:
  "predictions (aggregate nm bs st) = predictions st @ map (to_prediction nm) bs"
  unfolding aggregate_def
  by (induction bs arbitrary: st) (simp_all add: aggregate_step_predictions)

lemma sum_update_count:
  "sum_list (map snd (AList.update k (dict_get d k 0 + 1) d)) = sum_list (map snd d) + (1::int)"
  by (induction d) (auto simp: dict_get_def)

lemma aggregate_step_counts:
  "sum_list (map snd (class_counts (aggregate_step nm st b))) =
     sum_list (map snd (class_counts st)) + 1"
  by (simp add: aggregate_step_def Let_def sum_update_count)

lemma aggregate_counts:
  "sum_list (map snd (class_counts (aggregate nm bs st))) =
     sum_list (map snd (class_counts st)) + int (length bs)"
  unfolding aggregate_def
  by (induction bs arbitrary: st) (simp_all add: aggregate_step_counts)

lemma aggregate_step_alert:
  "alert_message (aggregate_step nm st b) =
     (if is_mine nm b then MINE_ALERT else alert_message st)"
  by (simp add: aggregate_step_def Let_def)

lemma aggregate_alert:
  "alert_message (aggregate nm bs st) =
     (if list_ex (is_mine nm) bs then MINE_ALERT else alert_message st)"
  unfolding aggregate_def
  by (induction bs arbitrary: st) (simp_all add: aggregate_step_alert)

lemma aggregate_step_image:
  "image_to_display_path (aggregate_step nm st b) = image_to_display_path st"
  by (simp add: aggregate_step_def Let_def)

lemma aggregate_image:
  "image_to_display_path (aggregate nm bs st) = image_to_display_path st"
  unfolding aggregate_def
  by (induction bs arbitrary: st) (simp_all add: aggregate_step_image)

section \<open>Properties of the result processing\<close>

lemma find_annotated_none:
  assumes "nd = Missing \<or> (\<exists>es. nd = Listing es \<and> \<not> list_ex is_image_name es)"
  shows "find_annotated nd rd = Inr None"
  using assms by (auto simp: find_annotated_def find_None_iff list_ex_iff)

lemma process_results_boxes:
  assumes "process_results e nm (r # rs) fp rd = Inr st" and "boxes r = Some bs" and "bs \<noteq> []"
  shows "predictions st = map (to_prediction nm) bs"
    and "sum_list (map snd (class_counts st)) = int (length bs)"
  using assms
  by (auto simp: process_results_def Let_def aggregate_predictions aggregate_counts
      initial_locals_def split: sum.splits option.splits)

lemma process_results_not_found:
  assumes "boxes r = Some bs" and "bs \<noteq> []" and "find_annotated (fs e rd) rd = Inr None"
  shows "process_results e nm (r # rs) fp rd =
           Inr ((aggregate nm bs (initial_locals fp))\<lparr>alert_message := NOT_FOUND_ALERT\<rparr>)"
  using assms by (simp add: process_results_def Let_def)

lemma process_results_empty:
  assumes "boxes r = None \<or> boxes r = Some []"
  shows "process_results e nm (r # rs) fp rd =
           Inr \<lparr>predictions = [], class_counts = [], alert_message = ''No objects detected.'',
                image_to_display_path = fp\<rparr>"
  using assms by (auto simp: process_results_def initial_locals_def)

lemma process_results_missing:
  assumes "process_results e nm results fp rd = Inr st" and "fs e rd = Missing"
  shows "image_to_display_path st = fp"
  using assms
  by (auto simp: process_results_def Let_def initial_locals_def find_annotated_def
      aggregate_image split: list.splits option.splits if_splits)

section \<open>Properties of the path resolution\<close>

lemma path_resolver_total:
  "\<exists>img. path_resolver e ip fp = Inr img \<and>
     (case relative_to_static e ip of
        Inr p \<Rightarrow> img = p
      | Inl _ \<Rightarrow> relative_to_static e fp = Inr img \<or> img = DEFAULT_IMAGE)"
  by (auto simp: path_resolver_def resolve_primary_def resolve_fallback_def try_except_def
      bind_exn_def relative_to_static_def split: sum.splits option.splits)

lemma path_resolver_same:
  "path_resolver e fp fp =
     Inr (case relative_to_static e fp of Inr p \<Rightarrow> p | Inl _ \<Rightarrow> DEFAULT_IMAGE)"
  by (auto simp: path_resolver_def resolve_primary_def resolve_fallback_def try_except_def
      bind_exn_def relative_to_static_def split: sum.splits option.splits)

section \<open>Properties of the handler\<close>

lemma run_detection_rendered:
  assumes "fst (run_detection e file) = Inr (Rendered pg)"
  obtains m results st img where
    "model e = Some m"
    "yolo_predict m (upload_filepath e file) RESULT_FOLDER (result_name_of e file) = Inr results"
    "process_results e (names m) results (upload_filepath e file) (result_dir_of e file) = Inr st"
    "path_resolver e (image_to_display_path st) (upload_filepath e file) = Inr img"
    "pg = render st img"
  using assms
  by (auto simp: run_detection_def Let_def bind_exn_def split: option.splits sum.splits)

lemma predict_rendered:
  assumes "fst (predict e req) = Inr (Rendered pg)" and "files req ''file'' = Some file"
  shows "fst (run_detection e file) = Inr (Rendered pg)"
  using assms
  by (auto simp: predict_def Let_def split: option.splits if_splits prod.splits)

lemma predict_stored:
  assumes "files req ''file'' = Some file" and "filename file \<noteq> []"
    and "save e (upload_filepath e file) (content file) = None"
  shows "fst (predict e req) = fst (run_detection e file)"
  using assms by (simp add: predict_def Let_def split: prod.splits)

lemma run_detection_processed:
  assumes "model e = Some m"
    and "yolo_predict m (upload_filepath e file) RESULT_FOLDER (result_name_of e file) = Inr results"
    and "process_results e (names m) results (upload_filepath e file) (result_dir_of e file) = Inr st"
    and "path_resolver e (image_to_display_path st) (upload_filepath e file) = Inr img"
  shows "fst (run_detection e file) = Inr (Rendered (render st img))"
  using assms by (simp add: run_detection_def Let_def bind_exn_def)

section \<open>Claims\<close>

text \<open>
  C1. When the first result of the model holds N boxes, N at least 1, and the handler
  renders the page, the predictions of the page are N entries, the i-th made from the
  i-th box, and the class counts of the page sum to N.
\<close>

theorem C1_predictions_match_boxes:
  assumes "fst (predict e req) = Inr (Rendered pg)"
    and "files req ''file'' = Some file"
    and "model e = Some m"
    and "yolo_predict m (upload_filepath e file) RESULT_FOLDER (result_name_of e file) = Inr (r # rs)"
    and "boxes r = Some bs"
    and "bs \<noteq> []"
  shows "length (tpl_predictions pg) = length bs \<and>
         tpl_predictions pg = map (to_prediction (names m)) bs \<and>
         sum_list (map snd (tpl_class_counts pg)) = int (length bs)"
proof -
  from assms(1,2) have "fst (run_detection e file) = Inr (Rendered pg)"
    by (rule predict_rendered)
  then obtain m' results st img where
    m': "model e = Some m'"
    and res: "yolo_predict m' (upload_filepath e file) RESULT_FOLDER (result_name_of e file) = Inr results"
    and st: "process_results e (names m') results (upload_filepath e file) (result_dir_of e file) = Inr st"
    and pg: "pg = render st img"
    by (rule run_detection_rendered)
  from m' assms(3) have "m' = m" by simp
  with res assms(4) have "results = r # rs" by simp
  with st \<open>m' = m\<close> have
    "process_results e (names m) (r # rs) (upload_filepath e file) (result_dir_of e file) = Inr st"
    by simp
  from process_results_boxes [OF this assms(5,6)] pg show ?thesis
    by (simp add: render_def)
qed

theorem C1_predictions_match_boxes_witness:
  "fst (predict (sample_env (Listing [''labels'', ''My_Photo.JPG'']) [\<lparr>boxes = Some sample_boxes\<rparr>])
          (sample_request ''My Photo.JPG'')) =
     Inr (Rendered
       \<lparr>tpl_predictions =
          [\<lparr>label = ''MILCO'', confidence = 75\<rparr>, \<lparr>label = ''NOMBO'', confidence = 50\<rparr>,
           \<lparr>label = ''MILCO'', confidence = 50\<rparr>],
        tpl_alert = MINE_ALERT,
        tpl_img_path = ''results/result_My_Photo/My_Photo.JPG'',
        tpl_class_counts = [(''MILCO'', 2), (''NOMBO'', 1)]\<rparr>) \<and>
   length sample_boxes = 3 \<and>
   map (to_prediction sample_names) sample_boxes =
     [\<lparr>label = ''MILCO'', confidence = 75\<rparr>, \<lparr>label = ''NOMBO'', confidence = 50\<rparr>,
      \<lparr>label = ''MILCO'', confidence = 50\<rparr>] \<and>
   sum_list (map snd [(''MILCO'', 2), (''NOMBO'', 1::int)]) = int (length sample_boxes)"
proof -
  let ?e = "sample_env (Listing [''labels'', ''My_Photo.JPG'']) [\<lparr>boxes = Some sample_boxes\<rparr>]"
  let ?pg = "\<lparr>tpl_predictions =
          [\<lparr>label = ''MILCO'', confidence = 75\<rparr>, \<lparr>label = ''NOMBO'', confidence = 50\<rparr>,
           \<lparr>label = ''MILCO'', confidence = 50\<rparr>],
        tpl_alert = MINE_ALERT,
        tpl_img_path = ''results/result_My_Photo/My_Photo.JPG'',
        tpl_class_counts = [(''MILCO'', 2), (''NOMBO'', 1)]\<rparr>"
  have h1: "fst (predict ?e (sample_request ''My Photo.JPG'')) = Inr (Rendered ?pg)"
    by code_simp
  have h2: "files (sample_request ''My Photo.JPG'') ''file'' = Some (sample_upload ''My Photo.JPG'')"
    by (simp add: sample_request_def)
  have h3: "model ?e = Some (sample_model [\<lparr>boxes = Some sample_boxes\<rparr>])"
    by (simp add: sample_env_def)
  have h4: "yolo_predict (sample_model [\<lparr>boxes = Some sample_boxes\<rparr>])
      (upload_filepath ?e (sample_upload ''My Photo.JPG'')) RESULT_FOLDER
      (result_name_of ?e (sample_upload ''My Photo.JPG'')) = Inr (\<lparr>boxes = Some sample_boxes\<rparr> # [])"
    by (simp add: sample_model_def)
  have h5: "boxes \<lparr>boxes = Some sample_boxes\<rparr> = Some sample_boxes" by simp
  have h6: "sample_boxes \<noteq> []" by (simp add: sample_boxes_def)
  have h7: "length sample_boxes = 3" by (simp add: sample_boxes_def)
  from C1_predictions_match_boxes [OF h1 h2 h3 h4 h5 h6] h1 h7 show ?thesis
    by (simp add: sample_model_def)
qed


lemma MINE_ALERT_nonempty: "MINE_ALERT \<noteq> []"
  by (simp add: MINE_ALERT_def)

text \<open>
  C2. For a detection whose lowered label is \<open>"milco"\<close>, the iteration of the loop sets the
  alert to the mine warning exactly when the scaled confidence is above 60 and leaves
  it as it was otherwise; from the empty alert, the alert after that one detection is
  the warning if and only if the scaled confidence is above 60; and once the alert is
  the warning, such a detection leaves it the same warning.
\<close>

theorem C2_mine_alert:
  assumes "lower (box_label nm b) = ''milco''"
  shows "alert_message (aggregate_step nm st b) =
           (if 60 < scaled_conf b then MINE_ALERT else alert_message st) \<and>
         (alert_message (aggregate nm [b] (initial_locals fp)) = MINE_ALERT) = (60 < scaled_conf b) \<and>
         (alert_message st = MINE_ALERT \<longrightarrow> alert_message (aggregate_step nm st b) = MINE_ALERT)"
  using assms MINE_ALERT_nonempty
  by (auto simp: aggregate_step_alert aggregate_alert is_mine_def initial_locals_def)

text \<open>
  A \<open>MILCO\<close> detection of confidence 0.75 (scaled 75) sets the warning, one of 0.5
  (scaled 50) does not, and a second qualifying detection keeps the warning.
\<close>

theorem C2_mine_alert_witness:
  "lower (box_label sample_names \<lparr>cls = 0, conf = 0.75\<rparr>) = ''milco'' \<and>
   scaled_conf \<lparr>cls = 0, conf = 0.75\<rparr> = 75 \<and>
   alert_message (aggregate sample_names [\<lparr>cls = 0, conf = 0.75\<rparr>] (initial_locals ''static/uploads/a.jpg'')) = MINE_ALERT \<and>
   lower (box_label sample_names \<lparr>cls = 0, conf = 0.5\<rparr>) = ''milco'' \<and>
   scaled_conf \<lparr>cls = 0, conf = 0.5\<rparr> = 50 \<and>
   alert_message (aggregate sample_names [\<lparr>cls = 0, conf = 0.5\<rparr>] (initial_locals ''static/uploads/a.jpg'')) \<noteq> MINE_ALERT \<and>
   alert_message (aggregate_step sample_names
      (aggregate_step sample_names (initial_locals ''static/uploads/a.jpg'') \<lparr>cls = 0, conf = 0.75\<rparr>)
      \<lparr>cls = 0, conf = 0.9\<rparr>) = MINE_ALERT"
proof -
  have a: "lower (box_label sample_names \<lparr>cls = 0, conf = 0.75\<rparr>) = ''milco''" by code_simp
  have b: "lower (box_label sample_names \<lparr>cls = 0, conf = 0.5\<rparr>) = ''milco''" by code_simp
  have c: "lower (box_label sample_names \<lparr>cls = 0, conf = 0.9\<rparr>) = ''milco''" by code_simp
  have sa: "scaled_conf \<lparr>cls = 0, conf = 0.75\<rparr> = 75" by (simp add: scaled_conf_def)
  have sb: "scaled_conf \<lparr>cls = 0, conf = 0.5\<rparr> = 50" by (simp add: scaled_conf_def)
  have sc: "scaled_conf \<lparr>cls = 0, conf = 0.9\<rparr> = 90" by (simp add: scaled_conf_def)
  from C2_mine_alert [OF a, of "initial_locals ''static/uploads/a.jpg''" "''static/uploads/a.jpg''"] sa
  have r1: "alert_message (aggregate sample_names [\<lparr>cls = 0, conf = 0.75\<rparr>] (initial_locals ''static/uploads/a.jpg'')) = MINE_ALERT"
    and r1s: "alert_message (aggregate_step sample_names (initial_locals ''static/uploads/a.jpg'') \<lparr>cls = 0, conf = 0.75\<rparr>) = MINE_ALERT"
    by simp_all
  from C2_mine_alert [OF b, of "initial_locals ''static/uploads/a.jpg''" "''static/uploads/a.jpg''"] sb
  have r2: "alert_message (aggregate sample_names [\<lparr>cls = 0, conf = 0.5\<rparr>] (initial_locals ''static/uploads/a.jpg'')) \<noteq> MINE_ALERT"
    by simp
  from C2_mine_alert [OF c, of "aggregate_step sample_names (initial_locals ''static/uploads/a.jpg'') \<lparr>cls = 0, conf = 0.75\<rparr>" "[]"] r1s
  have r3: "alert_message (aggregate_step sample_names
      (aggregate_step sample_names (initial_locals ''static/uploads/a.jpg'') \<lparr>cls = 0, conf = 0.75\<rparr>)
      \<lparr>cls = 0, conf = 0.9\<rparr>) = MINE_ALERT"
    by simp
  from a b sa sb r1 r2 r3 show ?thesis by blast
qed

text \<open>
  C3. When the first result holds at least one box and the result directory is missing
  or lists no name that ends, in lower case, with one of the image suffixes, the
  handler renders the page with the not-found message as the whole alert, whatever the
  detections set before, and with the image path resolved from the path of the upload.
\<close>

theorem C3_annotated_image_not_found:
  assumes "files req ''file'' = Some file"
    and "filename file \<noteq> []"
    and "save e (upload_filepath e file) (content file) = None"
    and "model e = Some m"
    and "yolo_predict m (upload_filepath e file) RESULT_FOLDER (result_name_of e file) = Inr (r # rs)"
    and "boxes r = Some bs"
    and "bs \<noteq> []"
    and "fs e (result_dir_of e file) = Missing \<or>
         (\<exists>es. fs e (result_dir_of e file) = Listing es \<and> \<not> list_ex is_image_name es)"
  shows "\<exists>pg. fst (predict e req) = Inr (Rendered pg) \<and>
           tpl_alert pg = NOT_FOUND_ALERT \<and>
           path_resolver e (upload_filepath e file) (upload_filepath e file) = Inr (tpl_img_path pg)"
proof -
  let ?fp = "upload_filepath e file"
  let ?st = "(aggregate (names m) bs (initial_locals ?fp))\<lparr>alert_message := NOT_FOUND_ALERT\<rparr>"
  have none: "find_annotated (fs e (result_dir_of e file)) (result_dir_of e file) = Inr None"
    using assms(8) by (rule find_annotated_none)
  have st: "process_results e (names m) (r # rs) ?fp (result_dir_of e file) = Inr ?st"
    using assms(6,7) none by (rule process_results_not_found)
  have img: "image_to_display_path ?st = ?fp"
    by (simp add: aggregate_image initial_locals_def)
  obtain p where p: "path_resolver e ?fp ?fp = Inr p"
    using path_resolver_total [of e ?fp ?fp] by blast
  with img have "path_resolver e (image_to_display_path ?st) ?fp = Inr p" by simp
  from run_detection_processed [OF assms(4,5) st this]
  have "fst (run_detection e file) = Inr (Rendered (render ?st p))" .
  with predict_stored [OF assms(1,2,3)]
  have "fst (predict e req) = Inr (Rendered (render ?st p))" by simp
  with p show ?thesis by (simp add: render_def)
qed

text \<open>
  The detections of the sample set the mine warning; the page shows the not-found
  message in its place.
\<close>

theorem C3_annotated_image_not_found_witness:
  "alert_message (aggregate sample_names sample_boxes (initial_locals ''static/uploads/My_Photo.JPG'')) = MINE_ALERT \<and>
   \<not> list_ex is_image_name [''labels'', ''notes.txt''] \<and>
   fst (predict (sample_env (Listing [''labels'', ''notes.txt'']) [\<lparr>boxes = Some sample_boxes\<rparr>])
          (sample_request ''My Photo.JPG'')) =
     Inr (Rendered
       \<lparr>tpl_predictions =
          [\<lparr>label = ''MILCO'', confidence = 75\<rparr>, \<lparr>label = ''NOMBO'', confidence = 50\<rparr>,
           \<lparr>label = ''MILCO'', confidence = 50\<rparr>],
        tpl_alert = NOT_FOUND_ALERT,
        tpl_img_path = ''uploads/My_Photo.JPG'',
        tpl_class_counts = [(''MILCO'', 2), (''NOMBO'', 1)]\<rparr>)"
proof -
  let ?e = "sample_env (Listing [''labels'', ''notes.txt'']) [\<lparr>boxes = Some sample_boxes\<rparr>]"
  let ?f = "sample_upload ''My Photo.JPG''"
  have h1: "files (sample_request ''My Photo.JPG'') ''file'' = Some ?f"
    by (simp add: sample_request_def)
  have h2: "filename ?f \<noteq> []" by (simp add: sample_upload_def)
  have h3: "save ?e (upload_filepath ?e ?f) (content ?f) = None" by code_simp
  have h4: "model ?e = Some (sample_model [\<lparr>boxes = Some sample_boxes\<rparr>])"
    by (simp add: sample_env_def)
  have h5: "yolo_predict (sample_model [\<lparr>boxes = Some sample_boxes\<rparr>])
      (upload_filepath ?e ?f) RESULT_FOLDER (result_name_of ?e ?f) = Inr (\<lparr>boxes = Some sample_boxes\<rparr> # [])"
    by (simp add: sample_model_def)
  have h6: "boxes \<lparr>boxes = Some sample_boxes\<rparr> = Some sample_boxes" by simp
  have h7: "sample_boxes \<noteq> []" by (simp add: sample_boxes_def)
  have n: "\<not> list_ex is_image_name [''labels'', ''notes.txt'']" by code_simp
  have h8: "fs ?e (result_dir_of ?e ?f) = Missing \<or>
         (\<exists>es. fs ?e (result_dir_of ?e ?f) = Listing es \<and> \<not> list_ex is_image_name es)"
    using n by (simp add: sample_env_def)
  have a: "alert_message (aggregate sample_names sample_boxes (initial_locals ''static/uploads/My_Photo.JPG'')) = MINE_ALERT"
    by code_simp
  have v: "fst (predict ?e (sample_request ''My Photo.JPG'')) =
     Inr (Rendered
       \<lparr>tpl_predictions =
          [\<lparr>label = ''MILCO'', confidence = 75\<rparr>, \<lparr>label = ''NOMBO'', confidence = 50\<rparr>,
           \<lparr>label = ''MILCO'', confidence = 50\<rparr>],
        tpl_alert = NOT_FOUND_ALERT,
        tpl_img_path = ''uploads/My_Photo.JPG'',
        tpl_class_counts = [(''MILCO'', 2), (''NOMBO'', 1)]\<rparr>)"
    by code_simp
  from C3_annotated_image_not_found [OF h1 h2 h3 h4 h5 h6 h7 h8] a n v show ?thesis
    by blast
qed


text \<open>
  C4. When the first result holds an empty list of boxes, the handler renders the page
  with the alert \<open>"No objects detected."\<close>, no predictions, no class counts, and the
  image path resolved from the path of the upload.
\<close>

theorem C4_no_objects_detected:
  assumes "files req ''file'' = Some file"
    and "filename file \<noteq> []"
    and "save e (upload_filepath e file) (content file) = None"
    and "model e = Some m"
    and "yolo_predict m (upload_filepath e file) RESULT_FOLDER (result_name_of e file) = Inr (r # rs)"
    and "boxes r = Some []"
  shows "\<exists>img. path_resolver e (upload_filepath e file) (upload_filepath e file) = Inr img \<and>
           fst (predict e req) =
             Inr (Rendered \<lparr>tpl_predictions = [], tpl_alert = ''No objects detected.'',
                             tpl_img_path = img, tpl_class_counts = []\<rparr>)"
proof -
  let ?fp = "upload_filepath e file"
  let ?st = "\<lparr>predictions = [], class_counts = [], alert_message = ''No objects detected.'',
              image_to_display_path = ?fp\<rparr>"
  have st: "process_results e (names m) (r # rs) ?fp (result_dir_of e file) = Inr ?st"
    using assms(6) by (simp add: process_results_empty)
  obtain p where p: "path_resolver e ?fp ?fp = Inr p"
    using path_resolver_total [of e ?fp ?fp] by blast
  then have "path_resolver e (image_to_display_path ?st) ?fp = Inr p" by simp
  from run_detection_processed [OF assms(4,5) st this]
  have "fst (run_detection e file) = Inr (Rendered (render ?st p))" .
  with predict_stored [OF assms(1,2,3)]
  have "fst (predict e req) = Inr (Rendered (render ?st p))" by simp
  with p show ?thesis by (simp add: render_def)
qed

theorem C4_no_objects_detected_witness:
  "path_resolver (sample_env (Listing [''a.jpg'']) [\<lparr>boxes = Some []\<rparr>])
     ''static/uploads/a.jpg'' ''static/uploads/a.jpg'' = Inr ''uploads/a.jpg'' \<and>
   fst (predict (sample_env (Listing [''a.jpg'']) [\<lparr>boxes = Some []\<rparr>]) (sample_request ''a.jpg'')) =
     Inr (Rendered \<lparr>tpl_predictions = [], tpl_alert = ''No objects detected.'',
                     tpl_img_path = ''uploads/a.jpg'', tpl_class_counts = []\<rparr>)"
proof -
  let ?e = "sample_env (Listing [''a.jpg'']) [\<lparr>boxes = Some []\<rparr>]"
  let ?f = "sample_upload ''a.jpg''"
  have h1: "files (sample_request ''a.jpg'') ''file'' = Some ?f"
    by (simp add: sample_request_def)
  have h2: "filename ?f \<noteq> []" by (simp add: sample_upload_def)
  have h3: "save ?e (upload_filepath ?e ?f) (content ?f) = None" by code_simp
  have h4: "model ?e = Some (sample_model [\<lparr>boxes = Some []\<rparr>])"
    by (simp add: sample_env_def)
  have h5: "yolo_predict (sample_model [\<lparr>boxes = Some []\<rparr>])
      (upload_filepath ?e ?f) RESULT_FOLDER (result_name_of ?e ?f) = Inr (\<lparr>boxes = Some []\<rparr> # [])"
    by (simp add: sample_model_def)
  have h6: "boxes \<lparr>boxes = Some []\<rparr> = Some []" by simp
  have fp: "upload_filepath ?e ?f = ''static/uploads/a.jpg''" by code_simp
  have p: "path_resolver ?e ''static/uploads/a.jpg'' ''static/uploads/a.jpg'' = Inr ''uploads/a.jpg''"
    by code_simp
  from C4_no_objects_detected [OF h1 h2 h3 h4 h5 h6] fp p show ?thesis
    by simp
qed

text \<open>
  C5. A request without the field \<open>file\<close>, or whose file has an empty name, is answered
  with status 400, and the handler has no effect: no file is written and the model is
  not called.
\<close>

theorem C5_missing_upload_rejected:
  assumes "files req ''file'' = None \<or>
           (\<exists>file. files req ''file'' = Some file \<and> filename file = [])"
  shows "(\<exists>body. fst (predict e req) = Inr (Plain body 400)) \<and> snd (predict e req) = []"
  using assms by (auto simp: predict_def)

theorem C5_missing_upload_rejected_witness:
  "files \<lparr>files = Map.empty\<rparr> ''file'' = None \<and>
   predict (sample_env Missing [\<lparr>boxes = Some sample_boxes\<rparr>]) \<lparr>files = Map.empty\<rparr> =
     (Inr (Plain ''No file uploaded'' 400), []) \<and>
   files (sample_request []) ''file'' = Some (sample_upload []) \<and>
   filename (sample_upload []) = [] \<and>
   predict (sample_env Missing [\<lparr>boxes = Some sample_boxes\<rparr>]) (sample_request []) =
     (Inr (Plain ''No file selected'' 400), [])"
proof -
  let ?e = "sample_env Missing [\<lparr>boxes = Some sample_boxes\<rparr>]"
  have a: "files \<lparr>files = Map.empty\<rparr> ''file'' = None" by simp
  have b: "files (sample_request []) ''file'' = Some (sample_upload [])"
    and c: "filename (sample_upload []) = []"
    by (simp_all add: sample_request_def sample_upload_def)
  have va: "fst (predict ?e \<lparr>files = Map.empty\<rparr>) = Inr (Plain ''No file uploaded'' 400)"
    by (simp add: predict_def)
  have vb: "fst (predict ?e (sample_request [])) = Inr (Plain ''No file selected'' 400)"
    by (simp add: predict_def b c)
  from C5_missing_upload_rejected [of "\<lparr>files = Map.empty\<rparr>" ?e] a va
  have 1: "predict ?e \<lparr>files = Map.empty\<rparr> = (Inr (Plain ''No file uploaded'' 400), [])"
    by (simp add: prod_eq_iff)
  from C5_missing_upload_rejected [of "sample_request []" ?e] b c vb
  have 2: "predict ?e (sample_request []) = (Inr (Plain ''No file selected'' 400), [])"
    by (simp add: prod_eq_iff)
  from a b c 1 2 show ?thesis by blast
qed



text \<open>
  C9. When the boxes of the first result are \<open>None\<close>, the results are processed exactly
  as with an empty list of boxes, and the handler renders the page with the alert
  \<open>"No objects detected."\<close>, no predictions, no class counts, and the image path
  resolved from the path of the upload.
\<close>

theorem C9_boxes_none_as_empty:
  assumes "files req ''file'' = Some file"
    and "filename file \<noteq> []"
    and "save e (upload_filepath e file) (content file) = None"
    and "model e = Some m"
    and "yolo_predict m (upload_filepath e file) RESULT_FOLDER (result_name_of e file) = Inr (r # rs)"
    and "boxes r = None"
  shows "process_results e (names m) (r # rs) (upload_filepath e file) (result_dir_of e file) =
           process_results e (names m) (r\<lparr>boxes := Some []\<rparr> # rs) (upload_filepath e file)
             (result_dir_of e file) \<and>
         (\<exists>img. path_resolver e (upload_filepath e file) (upload_filepath e file) = Inr img \<and>
            fst (predict e req) =
              Inr (Rendered \<lparr>tpl_predictions = [], tpl_alert = ''No objects detected.'',
                              tpl_img_path = img, tpl_class_counts = []\<rparr>))"
proof -
  let ?fp = "upload_filepath e file"
  let ?st = "\<lparr>predictions = [], class_counts = [], alert_message = ''No objects detected.'',
              image_to_display_path = ?fp\<rparr>"
  have st: "process_results e (names m) (r # rs) ?fp (result_dir_of e file) = Inr ?st"
    using assms(6) by (simp add: process_results_empty)
  have same: "process_results e (names m) (r\<lparr>boxes := Some []\<rparr> # rs) ?fp (result_dir_of e file) = Inr ?st"
    by (simp add: process_results_empty)
  obtain p where p: "path_resolver e ?fp ?fp = Inr p"
    using path_resolver_total [of e ?fp ?fp] by blast
  then have "path_resolver e (image_to_display_path ?st) ?fp = Inr p" by simp
  from run_detection_processed [OF assms(4,5) st this]
  have "fst (run_detection e file) = Inr (Rendered (render ?st p))" .
  with predict_stored [OF assms(1,2,3)]
  have "fst (predict e req) = Inr (Rendered (render ?st p))" by simp
  with p st same show ?thesis by (simp add: render_def)
qed

theorem C9_boxes_none_as_empty_witness:
  "process_results (sample_env (Listing [''b.png'']) [\<lparr>boxes = None\<rparr>]) sample_names
      [\<lparr>boxes = None\<rparr>] ''static/uploads/b.png'' ''static/results/result_b'' =
   process_results (sample_env (Listing [''b.png'']) [\<lparr>boxes = None\<rparr>]) sample_names
      [\<lparr>boxes = Some []\<rparr>] ''static/uploads/b.png'' ''static/results/result_b'' \<and>
   fst (predict (sample_env (Listing [''b.png'']) [\<lparr>boxes = None\<rparr>]) (sample_request ''b.png'')) =
     Inr (Rendered \<lparr>tpl_predictions = [], tpl_alert = ''No objects detected.'',
                     tpl_img_path = ''uploads/b.png'', tpl_class_counts = []\<rparr>)"
proof -
  let ?e = "sample_env (Listing [''b.png'']) [\<lparr>boxes = None\<rparr>]"
  let ?f = "sample_upload ''b.png''"
  have h1: "files (sample_request ''b.png'') ''file'' = Some ?f"
    by (simp add: sample_request_def)
  have h2: "filename ?f \<noteq> []" by (simp add: sample_upload_def)
  have h3: "save ?e (upload_filepath ?e ?f) (content ?f) = None" by code_simp
  have h4: "model ?e = Some (sample_model [\<lparr>boxes = None\<rparr>])"
    by (simp add: sample_env_def)
  have h5: "yolo_predict (sample_model [\<lparr>boxes = None\<rparr>])
      (upload_filepath ?e ?f) RESULT_FOLDER (result_name_of ?e ?f) = Inr (\<lparr>boxes = None\<rparr> # [])"
    by (simp add: sample_model_def)
  have h6: "boxes \<lparr>boxes = None\<rparr> = None" by simp
  have fp: "upload_filepath ?e ?f = ''static/uploads/b.png''" by code_simp
  have rd: "result_dir_of ?e ?f = ''static/results/result_b''" by code_simp
  have nm: "names (sample_model [\<lparr>boxes = None\<rparr>]) = sample_names" by (simp add: sample_model_def)
  have p: "path_resolver ?e ''static/uploads/b.png'' ''static/uploads/b.png'' = Inr ''uploads/b.png''"
    by code_simp
  from C9_boxes_none_as_empty [OF h1 h2 h3 h4 h5 h6] fp rd nm p show ?thesis
    by simp
qed

text \<open>
  C6, as amended. When the result directory does not exist and the handler renders the
  page, the image path of the page is the path of the upload relative to the static
  folder whenever that calculation succeeds, and the placeholder
  \<open>uploads/default_image.jpg\<close> when it raises; it is computed from the path of the
  upload alone, never from a path under the results directory.
\<close>

theorem C6_missing_result_dir:
  assumes "fst (predict e req) = Inr (Rendered pg)"
    and "files req ''file'' = Some file"
    and "fs e (result_dir_of e file) = Missing"
  shows "tpl_img_path pg =
           (case relative_to_static e (upload_filepath e file) of
              Inr p \<Rightarrow> p
            | Inl _ \<Rightarrow> DEFAULT_IMAGE)"
proof -
  let ?fp = "upload_filepath e file"
  from assms(1,2) have "fst (run_detection e file) = Inr (Rendered pg)"
    by (rule predict_rendered)
  then obtain m results st img where
    "model e = Some m"
    and "yolo_predict m ?fp RESULT_FOLDER (result_name_of e file) = Inr results"
    and st: "process_results e (names m) results ?fp (result_dir_of e file) = Inr st"
    and img: "path_resolver e (image_to_display_path st) ?fp = Inr img"
    and pg: "pg = render st img"
    by (rule run_detection_rendered)
  from st assms(3) have "image_to_display_path st = ?fp"
    by (rule process_results_missing)
  with img have "path_resolver e ?fp ?fp = Inr img" by simp
  then have "img = (case relative_to_static e ?fp of Inr p \<Rightarrow> p | Inl _ \<Rightarrow> DEFAULT_IMAGE)"
    by (simp add: path_resolver_same)
  with pg show ?thesis by (simp add: render_def)
qed

theorem C6_missing_result_dir_witness:
  "fst (predict (sample_env Missing [\<lparr>boxes = Some sample_boxes\<rparr>]) (sample_request ''a.jpg'')) =
     Inr (Rendered
       \<lparr>tpl_predictions =
          [\<lparr>label = ''MILCO'', confidence = 75\<rparr>, \<lparr>label = ''NOMBO'', confidence = 50\<rparr>,
           \<lparr>label = ''MILCO'', confidence = 50\<rparr>],
        tpl_alert = NOT_FOUND_ALERT,
        tpl_img_path = ''uploads/a.jpg'',
        tpl_class_counts = [(''MILCO'', 2), (''NOMBO'', 1)]\<rparr>) \<and>
   relative_to_static (sample_env Missing [\<lparr>boxes = Some sample_boxes\<rparr>]) ''static/uploads/a.jpg'' =
     Inr ''uploads/a.jpg''"
proof -
  let ?e = "sample_env Missing [\<lparr>boxes = Some sample_boxes\<rparr>]"
  let ?f = "sample_upload ''a.jpg''"
  let ?pg = "\<lparr>tpl_predictions =
          [\<lparr>label = ''MILCO'', confidence = 75\<rparr>, \<lparr>label = ''NOMBO'', confidence = 50\<rparr>,
           \<lparr>label = ''MILCO'', confidence = 50\<rparr>],
        tpl_alert = NOT_FOUND_ALERT,
        tpl_img_path = ''uploads/a.jpg'',
        tpl_class_counts = [(''MILCO'', 2), (''NOMBO'', 1)]\<rparr>"
  have h1: "fst (predict ?e (sample_request ''a.jpg'')) = Inr (Rendered ?pg)" by code_simp
  have h2: "files (sample_request ''a.jpg'') ''file'' = Some ?f" by (simp add: sample_request_def)
  have h3: "fs ?e (result_dir_of ?e ?f) = Missing" by (simp add: sample_env_def)
  have fp: "upload_filepath ?e ?f = ''static/uploads/a.jpg''" by code_simp
  have rel: "relative_to_static ?e ''static/uploads/a.jpg'' = Inr ''uploads/a.jpg''" by code_simp
  from C6_missing_result_dir [OF h1 h2 h3] fp rel h1 show ?thesis by simp
qed

text \<open>
  The claim as first stated fails where the calculation raises: with the application
  on another drive than the working directory and no result directory, the page shows
  the placeholder, not the path of the upload \<open>a.jpg\<close>.
\<close>

theorem C6_placeholder_counterexample:
  "files (sample_request ''a.jpg'') ''file'' = Some (sample_upload ''a.jpg'') \<and>
   fs (other_drive_env Missing [\<lparr>boxes = Some []\<rparr>])
      (result_dir_of (other_drive_env Missing [\<lparr>boxes = Some []\<rparr>]) (sample_upload ''a.jpg'')) = Missing \<and>
   upload_filepath (other_drive_env Missing [\<lparr>boxes = Some []\<rparr>]) (sample_upload ''a.jpg'') =
     ''static/uploads/a.jpg'' \<and>
   relative_to_static (other_drive_env Missing [\<lparr>boxes = Some []\<rparr>]) ''static/uploads/a.jpg'' =
     Inl ValueError \<and>
   fst (predict (other_drive_env Missing [\<lparr>boxes = Some []\<rparr>]) (sample_request ''a.jpg'')) =
     Inr (Rendered \<lparr>tpl_predictions = [], tpl_alert = ''No objects detected.'',
                     tpl_img_path = ''uploads/default_image.jpg'', tpl_class_counts = []\<rparr>)"
proof -
  let ?e = "other_drive_env Missing [\<lparr>boxes = Some []\<rparr>]"
  have a: "files (sample_request ''a.jpg'') ''file'' = Some (sample_upload ''a.jpg'')"
    by (simp add: sample_request_def)
  have b: "fs ?e (result_dir_of ?e (sample_upload ''a.jpg'')) = Missing"
    by (simp add: other_drive_env_def sample_env_def)
  have c: "upload_filepath ?e (sample_upload ''a.jpg'') = ''static/uploads/a.jpg''" by code_simp
  have d: "relative_to_static ?e ''static/uploads/a.jpg'' = Inl ValueError" by code_simp
  have f: "fst (predict ?e (sample_request ''a.jpg'')) =
     Inr (Rendered \<lparr>tpl_predictions = [], tpl_alert = ''No objects detected.'',
                     tpl_img_path = ''uploads/default_image.jpg'', tpl_class_counts = []\<rparr>)"
    by code_simp
  from a b c d f show ?thesis by blast
qed

text \<open>
  C7. The path resolution returns a path for every artifact path and every upload
  path, and raises nothing: the relative path of the artifact when that calculation
  succeeds, and otherwise the relative path of the upload or the placeholder.
\<close>

theorem C7_path_resolver_never_raises:
  "\<exists>img. path_resolver e image_path filepath = Inr img \<and>
     (case relative_to_static e image_path of
        Inr p \<Rightarrow> img = p
      | Inl _ \<Rightarrow> relative_to_static e filepath = Inr img \<or> img = DEFAULT_IMAGE)"
proof (cases "relative_to_static e image_path")
  case (Inr p)
  then have "path_resolver e image_path filepath = Inr p"
    by (auto simp: path_resolver_def resolve_primary_def try_except_def bind_exn_def
        relative_to_static_def split: sum.splits)
  with Inr show ?thesis by simp
next
  case (Inl x)
  show ?thesis
  proof (cases "resolve_fallback e filepath (snd (resolve_primary e image_path))")
    case (Inr q)
    then have "relative_to_static e filepath = Inr q"
      by (auto simp: resolve_fallback_def resolve_primary_def relative_to_static_def bind_exn_def
          split: sum.splits option.splits)
    moreover from Inl Inr have "path_resolver e image_path filepath = Inr q"
      by (auto simp: path_resolver_def resolve_primary_def try_except_def bind_exn_def
          relative_to_static_def split: sum.splits prod.splits)
    ultimately show ?thesis using Inl by simp
  next
    case failed: (Inl y)
    with Inl have "path_resolver e image_path filepath = Inr DEFAULT_IMAGE"
      by (auto simp: path_resolver_def resolve_primary_def try_except_def bind_exn_def
          relative_to_static_def split: sum.splits prod.splits)
    with Inl show ?thesis by simp
  qed
qed

text \<open>
  The three tiers: the artifact resolves; the artifact lies outside the static folder
  and the upload resolves; nothing resolves and the placeholder is returned.
\<close>

theorem C7_path_resolver_never_raises_witness:
  "path_resolver (sample_env Missing []) ''static/results/result_a/a.jpg'' ''static/uploads/a.jpg'' =
     Inr ''results/result_a/a.jpg'' \<and>
   path_resolver (sample_env Missing []) ''/tmp/a.jpg'' ''static/uploads/a.jpg'' = Inr ''uploads/a.jpg'' \<and>
   path_resolver (other_drive_env Missing []) ''static/results/result_a/a.jpg'' ''static/uploads/a.jpg'' =
     Inr ''uploads/default_image.jpg''"
proof -
  have r1: "relative_to_static (sample_env Missing []) ''static/results/result_a/a.jpg'' =
      Inr ''results/result_a/a.jpg''" by code_simp
  have r2: "relative_to_static (sample_env Missing []) ''/tmp/a.jpg'' = Inl ValueError" by code_simp
  have r2b: "path_resolver (sample_env Missing []) ''/tmp/a.jpg'' ''static/uploads/a.jpg'' \<noteq> Inr DEFAULT_IMAGE"
    by code_simp
  have r2c: "relative_to_static (sample_env Missing []) ''static/uploads/a.jpg'' = Inr ''uploads/a.jpg''"
    by code_simp
  have r3: "relative_to_static (other_drive_env Missing []) ''static/results/result_a/a.jpg'' = Inl ValueError"
    by code_simp
  have r3b: "relative_to_static (other_drive_env Missing []) ''static/uploads/a.jpg'' = Inl ValueError"
    by code_simp
  from C7_path_resolver_never_raises [of "sample_env Missing []" "''static/results/result_a/a.jpg''" "''static/uploads/a.jpg''"] r1
  have 1: "path_resolver (sample_env Missing []) ''static/results/result_a/a.jpg'' ''static/uploads/a.jpg'' =
     Inr ''results/result_a/a.jpg''" by auto
  from C7_path_resolver_never_raises [of "sample_env Missing []" "''/tmp/a.jpg''" "''static/uploads/a.jpg''"] r2 r2b r2c
  have 2: "path_resolver (sample_env Missing []) ''/tmp/a.jpg'' ''static/uploads/a.jpg'' = Inr ''uploads/a.jpg''"
    by auto
  from C7_path_resolver_never_raises [of "other_drive_env Missing []" "''static/results/result_a/a.jpg''" "''static/uploads/a.jpg''"] r3 r3b
  have 3: "path_resolver (other_drive_env Missing []) ''static/results/result_a/a.jpg'' ''static/uploads/a.jpg'' =
     Inr ''uploads/default_image.jpg''" by (auto simp: DEFAULT_IMAGE_def)
  from 1 2 3 show ?thesis by blast
qed

text \<open>
  C10. The rejection of an empty name reads the raw name only: for a file whose raw
  name is not empty and whose sanitized name is empty, the handler does not answer
  400, and its first effect is to save the file at the uploads folder joined with the
  empty string, \<open>static/uploads/\<close>.
\<close>

theorem C10_empty_sanitized_name_saved:
  assumes "files req ''file'' = Some file"
    and "filename file \<noteq> []"
    and "secure_filename e (filename file) = []"
  shows "(\<forall>body. fst (predict e req) \<noteq> Inr (Plain body 400)) \<and>
         upload_filepath e file = os_path_join UPLOAD_FOLDER [] \<and>
         upload_filepath e file = ''static/uploads/'' \<and>
         (\<exists>rest. snd (predict e req) = FileSave ''static/uploads/'' (content file) # rest)"
proof -
  have fp: "upload_filepath e file = ''static/uploads/''"
    using assms(3) by (simp add: upload_filepath_def os_path_join_def UPLOAD_FOLDER_def endswith_def)
  have j: "os_path_join UPLOAD_FOLDER [] = ''static/uploads/''"
    by (simp add: os_path_join_def UPLOAD_FOLDER_def endswith_def)
  have no400: "fst (predict e req) \<noteq> Inr (Plain body 400)" for body
    using assms(1,2)
    by (auto simp: predict_def run_detection_def Let_def bind_exn_def
        split: option.splits sum.splits prod.splits)
  have ev: "\<exists>rest. snd (predict e req) = FileSave ''static/uploads/'' (content file) # rest"
    using assms(1,2) fp
    by (auto simp: predict_def Let_def split: option.splits prod.splits)
  from fp j no400 ev show ?thesis by simp
qed

text \<open>
  The raw name \<open>..\<close> is such a name for the sanitizer modelled above; saving to the
  folder itself fails in the sample environment.
\<close>

theorem C10_empty_sanitized_name_saved_witness:
  "filename (sample_upload ''..'') \<noteq> [] \<and>
   secure_filename_posix ''..'' = [] \<and>
   predict (sample_env Missing [\<lparr>boxes = Some sample_boxes\<rparr>]) (sample_request ''..'') =
     (Inl OSError, [FileSave ''static/uploads/'' ''data''])"
proof -
  let ?e = "sample_env Missing [\<lparr>boxes = Some sample_boxes\<rparr>]"
  let ?f = "sample_upload ''..''"
  have h1: "files (sample_request ''..'') ''file'' = Some ?f" by (simp add: sample_request_def)
  have h2: "filename ?f \<noteq> []" by (simp add: sample_upload_def)
  have s: "secure_filename_posix ''..'' = []" by code_simp
  have h3: "secure_filename ?e (filename ?f) = []"
    using s by (simp add: sample_env_def sample_upload_def)
  have v: "predict ?e (sample_request ''..'') = (Inl OSError, [FileSave ''static/uploads/'' ''data''])"
    by code_simp
  from C10_empty_sanitized_name_saved [OF h1 h2 h3] h2 s v show ?thesis by blast
qed


section \<open>Properties of the filename sanitizer\<close>

lemma safe_chars_checked:
  "list_all (\<lambda>c. is_ascii c \<and> \<not> is_space c \<and> c \<noteq> CHR ''/'') SAFE_CHARS"
  by code_simp

lemma safe_char_cases:
  assumes "is_safe_char c"
  shows "is_ascii c" and "\<not> is_space c" and "c \<noteq> CHR ''/''"
  using assms safe_chars_checked
  by (simp_all add: is_safe_char_def list_all_iff)

lemma split_ws_no_space:
  assumes "\<forall>c\<in>set s. \<not> is_space c"
  shows "split_ws cur s = (if cur @ s = [] then [] else [cur @ s])"
  using assms by (induction s arbitrary: cur) auto

lemma str_join_single: "str_join sep (if s = [] then [] else [s]) = s"
  by simp

lemma str_strip_subset: "set (str_strip chars s) \<subseteq> set s"
proof -
  have sub: "set (dropWhile P xs) \<subseteq> set xs" for P and xs :: string
    using set_dropWhileD by fastforce
  have "set (str_strip chars s) = set (dropWhile (\<lambda>c. c \<in> set chars) (rev (dropWhile (\<lambda>c. c \<in> set chars) s)))"
    by (simp add: str_strip_def)
  also have "\<dots> \<subseteq> set (rev (dropWhile (\<lambda>c. c \<in> set chars) s))" by (rule sub)
  also have "\<dots> \<subseteq> set s" using sub [of "\<lambda>c. c \<in> set chars" s] by simp
  finally show ?thesis .
qed


lemma dropWhile_strip_head:
  fixes P :: "char \<Rightarrow> bool"
  shows "dropWhile P (rev (dropWhile P (rev (dropWhile P s)))) = rev (dropWhile P (rev (dropWhile P s)))"
proof -
  let ?d = "dropWhile P s"
  let ?t = "rev (dropWhile P (rev ?d))"
  have "?t @ rev (takeWhile P (rev ?d)) = rev (takeWhile P (rev ?d) @ dropWhile P (rev ?d))"
    by (simp only: rev_append)
  also have "\<dots> = rev (rev ?d)"
    by (simp only: takeWhile_dropWhile_id)
  finally have d: "?d = ?t @ rev (takeWhile P (rev ?d))"
    by (simp only: rev_rev_ident)
  show ?thesis
  proof (cases ?t)
    case Nil
    show ?thesis unfolding Nil by simp
  next
    case (Cons x xs)
    from d Cons obtain ys where ys: "?d = x # ys"
      by (metis append_Cons)
    have "hd ?d = x" using ys by (metis list.sel(1))
    moreover have "?d \<noteq> []" using ys by (metis list.distinct(1))
    ultimately have "\<not> P x" using hd_dropWhile [of P s] by blast
    then show ?thesis unfolding Cons by simp
  qed
qed

lemma str_strip_idem: "str_strip chars (str_strip chars s) = str_strip chars s"
  by (simp add: str_strip_def dropWhile_strip_head)


lemma sanitize_safe:
  assumes "\<forall>c\<in>set r. is_safe_char c"
  shows "filter is_safe_char
           (str_join ''_''
              (str_split (map (\<lambda>c. if c = CHR ''/'' then CHR '' '' else c) (filter is_ascii r)))) = r"
proof -
  have a: "filter is_ascii r = r"
    using assms by (simp add: safe_char_cases(1))
  have b: "map (\<lambda>c. if c = CHR ''/'' then CHR '' '' else c) r = r"
    using assms by (intro map_idI) (simp add: safe_char_cases(3))
  have "\<forall>c\<in>set r. \<not> is_space c"
    using assms by (simp add: safe_char_cases(2))
  then have c: "str_split r = (if r = [] then [] else [r])"
    by (simp add: str_split_def split_ws_no_space)
  have d: "filter is_safe_char r = r"
    using assms by simp
  show ?thesis
    by (simp only: a b c str_join_single d)
qed

text \<open>
  C8. Sanitizing a filename twice gives what sanitizing it once gives, for the
  sanitizer modelled above.
\<close>

theorem C8_secure_filename_idempotent:
  "secure_filename_posix (secure_filename_posix f) = secure_filename_posix f"
proof -
  let ?x = "filter is_safe_char
           (str_join ''_''
              (str_split (map (\<lambda>c. if c = CHR ''/'' then CHR '' '' else c) (filter is_ascii f))))"
  have r: "secure_filename_posix f = str_strip ''._'' ?x"
    by (simp only: secure_filename_posix_def)
  have "set (str_strip ''._'' ?x) \<subseteq> set ?x" by (rule str_strip_subset)
  then have safe: "\<forall>c\<in>set (secure_filename_posix f). is_safe_char c"
    unfolding r by auto
  have "secure_filename_posix (secure_filename_posix f) = str_strip ''._'' (secure_filename_posix f)"
    unfolding secure_filename_posix_def [of "secure_filename_posix f"]
    by (simp only: sanitize_safe [OF safe])
  also have "\<dots> = secure_filename_posix f"
    unfolding r by (rule str_strip_idem)
  finally show ?thesis .
qed

theorem C8_secure_filename_idempotent_witness:
  "secure_filename_posix ''../../My Holiday photo_.JPG'' = ''My_Holiday_photo_.JPG'' \<and>
   secure_filename_posix ''My_Holiday_photo_.JPG'' = ''My_Holiday_photo_.JPG''"
proof -
  have a: "secure_filename_posix ''../../My Holiday photo_.JPG'' = ''My_Holiday_photo_.JPG''"
    by code_simp
  from C8_secure_filename_idempotent [of "''../../My Holiday photo_.JPG''"] a show ?thesis
    by simp
qed

end
